theory Spec2Isabelle
  imports Complex_Main
begin

section \<open>Errors and results\<close>

text \<open>
  The exceptions the two device modules can raise. \<open>ShapeError\<close> stands for the exception
  with which the array library rejects operands whose shapes do not fit.
\<close>

datatype error =
    AssertionError
  | TypeError string
  | NotImplementedError string
  | KeyError string
  | ZeroDivisionError
  | ShapeError

definition and_then :: "error + 'a \<Rightarrow> ('a \<Rightarrow> error + 'b) \<Rightarrow> error + 'b" where
  "and_then m f = (case m of Inl e \<Rightarrow> Inl e | Inr x \<Rightarrow> f x)"

definition lookup :: "(string \<rightharpoonup> 'v) \<Rightarrow> string \<Rightarrow> error + 'v" where
  "lookup m k = (case m k of None \<Rightarrow> Inl (KeyError k) | Some v \<Rightarrow> Inr v)"

section \<open>Scalars\<close>

text \<open>
  The parameters are Python floats, read as the real numbers they denote; rounding is
  outside the model. Dividing a float by zero raises \<open>ZeroDivisionError\<close>. A negative
  float to the power \<open>0.25\<close> is a complex number, the principal fourth root; any other
  float gives its real fourth root. \<open>jnp.sqrt\<close> of a negative number is NaN, for which the
  model has no value: the real square root used below is meant on non-negative arguments.
\<close>

definition float_div :: "real \<Rightarrow> real \<Rightarrow> error + real" where
  "float_div x y = (if y = 0 then Inl ZeroDivisionError else Inr (x / y))"

definition float_pow_quarter :: "real \<Rightarrow> complex" where
  "float_pow_quarter x =
     (if x < 0 then of_real ((- x) powr 0.25) * cis (pi * 0.25) else of_real (x powr 0.25))"

section \<open>Arrays\<close>

text \<open>
  A two-dimensional array carries its shape and its rows. Floating-point entries are read
  as the real and complex numbers they denote; rounding, infinities and NaN are outside
  the model. One-dimensional arrays are lists.
\<close>

datatype cmat = Mat (nrows: nat) (ncols: nat) (rows: "complex list list")

definition tabulate2 :: "nat \<Rightarrow> nat \<Rightarrow> (nat \<Rightarrow> nat \<Rightarrow> complex) \<Rightarrow> cmat" where
  "tabulate2 r c f = Mat r c (map (\<lambda>i. map (f i) [0..<c]) [0..<r])"

definition entry :: "cmat \<Rightarrow> nat \<Rightarrow> nat \<Rightarrow> complex" where
  "entry A i j = rows A ! i ! j"

definition wf_mat :: "cmat \<Rightarrow> bool" where
  "wf_mat A \<longleftrightarrow> length (rows A) = nrows A \<and> list_all (\<lambda>r. length r = ncols A) (rows A)"

definition same_shape :: "cmat \<Rightarrow> cmat \<Rightarrow> bool" where
  "same_shape A B \<longleftrightarrow> nrows A = nrows B \<and> ncols A = ncols B"

text \<open>\<open>jnp.arange(lo, hi)\<close> on integers, \<open>jnp.ones(n)\<close>, and the entrywise operations
  on one-dimensional arrays. The source applies the binary ones to arrays of equal length
  only.\<close>

definition arange :: "int \<Rightarrow> int \<Rightarrow> int list" where
  "arange lo hi = map (\<lambda>i. lo + int i) [0..<nat (hi - lo)]"

definition ones :: "nat \<Rightarrow> real list" where
  "ones n = replicate n 1"

definition vscale :: "real \<Rightarrow> real list \<Rightarrow> real list" where
  "vscale s v = map (\<lambda>x. s * x) v"

definition vsub :: "real list \<Rightarrow> real list \<Rightarrow> real list" where
  "vsub u v = map2 (\<lambda>x y. x - y) u v"

definition vsquare :: "real list \<Rightarrow> real list" where
  "vsquare v = map (\<lambda>x. x ^ 2) v"

text \<open>\<open>jnp.diag(v)\<close> of a one-dimensional array and \<open>jnp.eye(n, k=k)\<close>.\<close>

definition diag :: "complex list \<Rightarrow> cmat" where
  "diag v = tabulate2 (length v) (length v) (\<lambda>i j. if i = j then v ! i else 0)"

definition eye :: "nat \<Rightarrow> int \<Rightarrow> cmat" where
  "eye n k = tabulate2 n n (\<lambda>i j. if int j = int i + k then 1 else 0)"

text \<open>Scalar multiple, sum and difference. The array library rejects a sum or a
  difference of two-dimensional arrays of different shapes.\<close>

definition smult :: "complex \<Rightarrow> cmat \<Rightarrow> cmat" where
  "smult s A = tabulate2 (nrows A) (ncols A) (\<lambda>i j. s * entry A i j)"

definition madd :: "cmat \<Rightarrow> cmat \<Rightarrow> error + cmat" where
  "madd A B =
     (if same_shape A B
      then Inr (tabulate2 (nrows A) (ncols A) (\<lambda>i j. entry A i j + entry B i j))
      else Inl ShapeError)"

definition msub :: "cmat \<Rightarrow> cmat \<Rightarrow> error + cmat" where
  "msub A B =
     (if same_shape A B
      then Inr (tabulate2 (nrows A) (ncols A) (\<lambda>i j. entry A i j - entry B i j))
      else Inl ShapeError)"

text \<open>\<open>A.transpose()\<close>, \<open>jnp.conjugate(A)\<close>, the matrix product (\<open>jnp.dot\<close> and
  \<open>@\<close> on two-dimensional arrays) and the column slice \<open>A[:, :n]\<close>.\<close>

definition transpose_mat :: "cmat \<Rightarrow> cmat" where
  "transpose_mat A = tabulate2 (ncols A) (nrows A) (\<lambda>i j. entry A j i)"

definition conjugate :: "cmat \<Rightarrow> cmat" where
  "conjugate A = tabulate2 (nrows A) (ncols A) (\<lambda>i j. cnj (entry A i j))"

definition dot :: "cmat \<Rightarrow> cmat \<Rightarrow> error + cmat" where
  "dot A B =
     (if ncols A = nrows B
      then Inr (tabulate2 (nrows A) (ncols B) (\<lambda>i j. \<Sum>k<ncols A. entry A i k * entry B k j))
      else Inl ShapeError)"

definition take_cols :: "nat \<Rightarrow> cmat \<Rightarrow> cmat" where
  "take_cols n A = tabulate2 (nrows A) (min n (ncols A)) (\<lambda>i j. entry A i j)"

definition sdiv :: "cmat \<Rightarrow> complex \<Rightarrow> cmat" where
  "sdiv A s = tabulate2 (nrows A) (ncols A) (\<lambda>i j. entry A i j / s)"

definition dagger :: "cmat \<Rightarrow> cmat" where
  "dagger A = conjugate (transpose_mat A)"

definition hermitian :: "cmat \<Rightarrow> bool" where
  "hermitian A \<longleftrightarrow> dagger A = A"

section \<open>Devices\<close>

text \<open>
  The parameter mapping, as a record of the keys the two devices read: the fluxonium reads
  \<open>Ec\<close>, \<open>El\<close>, \<open>Ej\<close> and \<open>phi_ext\<close>, the transmon \<open>Ec\<close>, \<open>Ej\<close> and \<open>ng\<close>.
\<close>

record params =
  Ec :: real
  El :: real
  Ej :: real
  ng :: real
  phi_ext :: real

text \<open>
  Modelled from the spec: the base classes \<open>Device\<close> and \<open>FluxDevice\<close> and the enumeration
  \<open>HamiltonianTypes\<close> are declared in \<open>qcsys.devices.base\<close>. \<open>Device\<close> supplies the fields
  \<open>N\<close>, \<open>params\<close>, \<open>label\<close> and \<open>use_linear\<close>; \<open>FluxDevice\<close> adds \<open>N_pre_diag\<close> and the
  Hamiltonian-type selector. The selector has the members \<open>linear\<close> and \<open>full\<close>;
  \<open>other_type\<close> stands for any further member.
\<close>

datatype HamiltonianTypes = linear | full | other_type

record Device =
  N :: nat
  params :: params
  label :: int
  use_linear :: bool

record FluxDevice = Device +
  N_pre_diag :: nat
  hamiltonian :: HamiltonianTypes

record SingleChargeTransmon = Device +
  N_max_charge :: nat

section \<open>SingleChargeTransmon\<close>

definition SingleChargeTransmon_create ::
    "nat \<Rightarrow> nat \<Rightarrow> params \<Rightarrow> int \<Rightarrow> bool \<Rightarrow> SingleChargeTransmon" where
  "SingleChargeTransmon_create n n_max_charge p lbl use_lin =
     \<lparr>N = n, params = p, label = lbl, use_linear = use_lin, N_max_charge = n_max_charge\<rparr>"

definition SingleChargeTransmon_build_n_op :: "SingleChargeTransmon \<Rightarrow> cmat" where
  "SingleChargeTransmon_build_n_op d =
     diag (map of_int (arange (- int (N_max_charge d)) (int (N_max_charge d) + 1)))"

definition SingleChargeTransmon_build_cos_phi_op :: "SingleChargeTransmon \<Rightarrow> error + cmat" where
  "SingleChargeTransmon_build_cos_phi_op d =
     and_then (madd (eye (2 * N_max_charge d + 1) 2) (eye (2 * N_max_charge d + 1) (- 2)))
       (\<lambda>s. Inr (smult (1 / 2) s))"

definition SingleChargeTransmon_build_cos_phi_2_op :: "SingleChargeTransmon \<Rightarrow> error + cmat" where
  "SingleChargeTransmon_build_cos_phi_2_op d =
     and_then (madd (eye (2 * N_max_charge d + 1) 1) (eye (2 * N_max_charge d + 1) (- 1)))
       (\<lambda>s. Inr (smult (1 / 2) s))"

definition SingleChargeTransmon_build_sin_phi_2_op :: "SingleChargeTransmon \<Rightarrow> error + cmat" where
  "SingleChargeTransmon_build_sin_phi_2_op d =
     and_then (msub (eye (2 * N_max_charge d + 1) 1) (eye (2 * N_max_charge d + 1) (- 1)))
       (\<lambda>s. Inr (smult (\<i> / 2) s))"

text \<open>The keys of the operator dictionary are written in ASCII, \<open>phi\<close> for the Greek
  letter of the source.\<close>

definition SingleChargeTransmon_common_ops ::
    "SingleChargeTransmon \<Rightarrow> error + (string \<rightharpoonup> cmat)" where
  "SingleChargeTransmon_common_ops d =
     (if N d \<le> 2 * N_max_charge d + 1
      then
        and_then (SingleChargeTransmon_build_cos_phi_op d) (\<lambda>c.
        and_then (SingleChargeTransmon_build_cos_phi_2_op d) (\<lambda>c2.
        and_then (SingleChargeTransmon_build_sin_phi_2_op d) (\<lambda>s2.
          Inr (Map.empty(''n'' \<mapsto> SingleChargeTransmon_build_n_op d,
                         ''cos(phi)'' \<mapsto> c,
                         ''cos(phi/2)'' \<mapsto> c2,
                         ''sin(phi/2)'' \<mapsto> s2)))))
      else Inl AssertionError)"


definition SingleChargeTransmon_phi_zpf :: "SingleChargeTransmon \<Rightarrow> error + complex" where
  "SingleChargeTransmon_phi_zpf d =
     and_then (float_div (2 * Ec (params d)) (Ej (params d))) (\<lambda>q. Inr (float_pow_quarter q))"

definition SingleChargeTransmon_n_zpf :: "SingleChargeTransmon \<Rightarrow> error + complex" where
  "SingleChargeTransmon_n_zpf d =
     and_then (float_div (Ej (params d)) (32 * Ec (params d))) (\<lambda>q. Inr (float_pow_quarter q))"

definition SingleChargeTransmon_get_linear_omega :: "SingleChargeTransmon \<Rightarrow> real" where
  "SingleChargeTransmon_get_linear_omega d = sqrt (8 * Ec (params d) * Ej (params d))"

text \<open>
  The source's \<open>get_H_linear\<close> is \<open>raise NotImplemented("...")\<close>. \<open>NotImplemented\<close> is
  Python's comparison singleton, not the exception class \<open>NotImplementedError\<close>: the
  operand of \<open>raise\<close> is evaluated first, and calling the singleton raises \<open>TypeError\<close>.
\<close>

definition SingleChargeTransmon_get_H_linear :: "SingleChargeTransmon \<Rightarrow> error + cmat" where
  "SingleChargeTransmon_get_H_linear d =
     Inl (TypeError ''NotImplementedType object is not callable'')"

text \<open>
  Modelled from the spec: \<open>linear_ops\<close> is a property of the base class \<open>Device\<close>
  (\<open>qcsys.devices.base\<close>); it calls \<open>common_ops()\<close> and caches the mapping.
\<close>

definition SingleChargeTransmon_linear_ops ::
    "SingleChargeTransmon \<Rightarrow> error + (string \<rightharpoonup> cmat)" where
  "SingleChargeTransmon_linear_ops d = SingleChargeTransmon_common_ops d"

definition SingleChargeTransmon_get_H_full :: "SingleChargeTransmon \<Rightarrow> error + cmat" where
  "SingleChargeTransmon_get_H_full d =
     (let n_minus_ng_array =
            vsub (map of_int (arange (- int (N_max_charge d)) (int (N_max_charge d) + 1)))
                 (vscale (2 * ng (params d)) (ones (2 * N_max_charge d + 1)))
      in and_then (SingleChargeTransmon_linear_ops d) (\<lambda>ops.
         and_then (lookup ops ''cos(phi)'') (\<lambda>c.
           msub (diag (map of_real (vscale (Ec (params d)) (vsquare n_minus_ng_array))))
                (smult (of_real (Ej (params d))) c))))"

text \<open>
  \<open>eig_systems["vecs"]\<close> is a cached field that the diagonalisation collaborator fills; the
  projection takes it as the argument \<open>vecs\<close>.
\<close>

definition SingleChargeTransmon_get_op_in_H_eigenbasis ::
    "SingleChargeTransmon \<Rightarrow> cmat \<Rightarrow> cmat \<Rightarrow> error + cmat" where
  "SingleChargeTransmon_get_op_in_H_eigenbasis d vecs op =
     (let evecs = take_cols (N d) vecs
      in and_then (dot op evecs) (\<lambda>x. dot (conjugate (transpose_mat evecs)) x))"

text \<open>
  Modelled from the spec: \<open>eig_systems\<close> is a property of the base class \<open>Device\<close>; it
  diagonalises \<open>get_H_linear()\<close> when \<open>use_linear\<close> is set and \<open>get_H_full()\<close> otherwise,
  and caches the eigenvectors as the columns of \<open>vecs\<close>. The diagonalisation belongs to the
  numerics collaborator. Its contract, as far as the projection consumes it: the
  Hamiltonian was built, \<open>vecs\<close> has the shape of the Hamiltonian, and the columns of
  \<open>vecs\<close> are orthonormal.
\<close>

definition orthonormal_columns :: "cmat \<Rightarrow> bool" where
  "orthonormal_columns V \<longleftrightarrow>
     list_all (\<lambda>i. list_all (\<lambda>j.
         (\<Sum>k<nrows V. cnj (entry V k i) * entry V k j) = (if i = j then 1 else 0))
       [0..<ncols V]) [0..<ncols V]"

definition SingleChargeTransmon_eig_vecs_contract :: "SingleChargeTransmon \<Rightarrow> cmat \<Rightarrow> bool" where
  "SingleChargeTransmon_eig_vecs_contract d vecs =
     (case (if use_linear d then SingleChargeTransmon_get_H_linear d
            else SingleChargeTransmon_get_H_full d) of
        Inl e \<Rightarrow> False
      | Inr H \<Rightarrow> wf_mat vecs \<and> same_shape vecs H \<and> orthonormal_columns vecs)"

section \<open>Fluxonium\<close>

text \<open>
  The operator builders of the \<open>jaxquantum\<close> library: \<open>identity(n)\<close>, and the truncated
  ladder operators \<open>destroy(n)\<close>, with \<open>sqrt(j)\<close> at row \<open>j - 1\<close> and column \<open>j\<close>, and
  \<open>create(n)\<close>, its conjugate transpose.
\<close>

definition identity :: "nat \<Rightarrow> cmat" where
  "identity n = eye n 0"

definition destroy :: "nat \<Rightarrow> cmat" where
  "destroy n = tabulate2 n n (\<lambda>i j. if j = i + 1 then of_real (sqrt (real j)) else 0)"

definition create :: "nat \<Rightarrow> cmat" where
  "create n = tabulate2 n n (\<lambda>i j. if i = j + 1 then of_real (sqrt (real i)) else 0)"

text \<open>
  The matrix cosine and sine of the library (\<open>jqt.cosm\<close>, \<open>jqt.sinm\<close>) are limits of power
  series and have no executable form here: the fluxonium takes them as parameters.
  Their contract, on square arguments: the result has the shape of the argument, and a
  Hermitian argument gives a Hermitian result.
\<close>

record numerics =
  cosm :: "cmat \<Rightarrow> cmat"
  sinm :: "cmat \<Rightarrow> cmat"

definition matrix_function_contract :: "(cmat \<Rightarrow> cmat) \<Rightarrow> bool" where
  "matrix_function_contract f \<longleftrightarrow>
     (\<forall>A. wf_mat A \<and> nrows A = ncols A \<longrightarrow>
          wf_mat (f A) \<and> same_shape (f A) A \<and> (hermitian A \<longrightarrow> hermitian (f A)))"

definition numerics_contract :: "numerics \<Rightarrow> bool" where
  "numerics_contract nm \<longleftrightarrow> matrix_function_contract (cosm nm) \<and> matrix_function_contract (sinm nm)"

definition Fluxonium_n_zpf :: "FluxDevice \<Rightarrow> error + complex" where
  "Fluxonium_n_zpf d =
     and_then (float_div (El (params d)) (32 * Ec (params d))) (\<lambda>q. Inr (float_pow_quarter q))"

definition Fluxonium_phi_zpf :: "FluxDevice \<Rightarrow> error + complex" where
  "Fluxonium_phi_zpf d =
     and_then (float_div (2 * Ec (params d)) (El (params d))) (\<lambda>q. Inr (float_pow_quarter q))"

definition Fluxonium_get_linear_omega :: "FluxDevice \<Rightarrow> real" where
  "Fluxonium_get_linear_omega d = sqrt (8 * Ec (params d) * El (params d))"

definition Fluxonium_common_ops :: "numerics \<Rightarrow> FluxDevice \<Rightarrow> error + (string \<rightharpoonup> cmat)" where
  "Fluxonium_common_ops nm d =
     (let n = N_pre_diag d;
          op_id = identity n;
          op_a = destroy n;
          op_a_dag = create n
      in and_then (Fluxonium_phi_zpf d) (\<lambda>phi_zpf.
         and_then (madd op_a op_a_dag) (\<lambda>s.
         let op_phi = smult phi_zpf s
         in and_then (Fluxonium_n_zpf d) (\<lambda>n_zpf.
            and_then (msub op_a_dag op_a) (\<lambda>t.
            let op_n = smult (\<i> * n_zpf) t
            in Inr (Map.empty(''id'' \<mapsto> op_id,
                              ''a'' \<mapsto> op_a,
                              ''a_dag'' \<mapsto> op_a_dag,
                              ''phi'' \<mapsto> op_phi,
                              ''n'' \<mapsto> op_n,
                              ''cos(phi/2)'' \<mapsto> cosm nm (sdiv op_phi 2),
                              ''sin(phi/2)'' \<mapsto> sinm nm (sdiv op_phi 2))))))))"

text \<open>
  Modelled from the spec: \<open>linear_ops\<close> of the base class calls \<open>common_ops()\<close> and caches
  the mapping.
\<close>

definition Fluxonium_linear_ops :: "numerics \<Rightarrow> FluxDevice \<Rightarrow> error + (string \<rightharpoonup> cmat)" where
  "Fluxonium_linear_ops nm d = Fluxonium_common_ops nm d"

definition Fluxonium_get_H_linear :: "numerics \<Rightarrow> FluxDevice \<Rightarrow> error + cmat" where
  "Fluxonium_get_H_linear nm d =
     (let w = Fluxonium_get_linear_omega d
      in and_then (Fluxonium_linear_ops nm d) (\<lambda>ops.
         and_then (lookup ops ''a_dag'') (\<lambda>op_a_dag.
         and_then (lookup ops ''a'') (\<lambda>op_a.
         and_then (dot op_a_dag op_a) (\<lambda>num.
         and_then (lookup ops ''id'') (\<lambda>op_id.
         and_then (madd num (smult (1 / 2) op_id)) (\<lambda>s.
           Inr (smult (of_real w) s))))))))"

definition Fluxonium_get_H_full :: "numerics \<Rightarrow> FluxDevice \<Rightarrow> error + cmat" where
  "Fluxonium_get_H_full nm d =
     and_then (Fluxonium_linear_ops nm d) (\<lambda>ops.
     and_then (lookup ops ''phi'') (\<lambda>op_phi.
       let op_cos_phi = cosm nm op_phi;
           op_sin_phi = sinm nm op_phi;
           pe = phi_ext (params d)
       in and_then (madd (smult (of_real (cos (2 * pi * pe))) op_cos_phi)
                         (smult (of_real (sin (2 * pi * pe))) op_sin_phi)) (\<lambda>Hcos.
          and_then (Fluxonium_get_H_linear nm d) (\<lambda>H_lin.
            msub H_lin (smult (of_real (Ej (params d))) Hcos)))))"

text \<open>A Python function that falls off its end returns \<open>None\<close>.\<close>

definition Fluxonium_potential :: "FluxDevice \<Rightarrow> real \<Rightarrow> real option" where
  "Fluxonium_potential d phi =
     (let pe = phi_ext (params d);
          V_linear = 0.5 * El (params d) * (2 * pi * phi) ^ 2
      in if hamiltonian d = linear then Some V_linear
         else let V_nonlinear = - Ej (params d) * cos (2 * pi * (phi - pe))
              in if hamiltonian d = full then Some (V_linear + V_nonlinear)
                 else None)"

section \<open>Reference forms\<close>

text \<open>
  The operators and the Hamiltonian of the charge-basis transmon as the specification
  words them, entry by entry: the charge operator \<open>diag(-M..M)\<close>, the \<open>cos(phi)\<close>
  operator with weight \<open>1/2\<close> between charge states two apart, and the charging term
  \<open>Ec (n - 2 ng)\<^sup>2\<close> on the diagonal minus \<open>Ej\<close> times the \<open>cos(phi)\<close> operator.
\<close>

definition spec_n_op :: "nat \<Rightarrow> cmat" where
  "spec_n_op M = tabulate2 (2 * M + 1) (2 * M + 1) (\<lambda>i j. if i = j then of_int (int i - int M) else 0)"

definition spec_cos_phi :: "nat \<Rightarrow> cmat" where
  "spec_cos_phi M = tabulate2 (2 * M + 1) (2 * M + 1) (\<lambda>i j. if j = i + 2 \<or> i = j + 2 then 1 / 2 else 0)"

definition spec_transmon_H :: "params \<Rightarrow> nat \<Rightarrow> cmat" where
  "spec_transmon_H p M = tabulate2 (2 * M + 1) (2 * M + 1) (\<lambda>i j.
      (if i = j then of_real (Ec p * (of_int (int i - int M) - 2 * ng p) ^ 2) else 0)
      - of_real (Ej p) * entry (spec_cos_phi M) i j)"

text \<open>
  The flux operator and the two Hamiltonians of the fluxonium as the specification words
  them: \<open>phi = phi_zpf (a + a_dag)\<close> with \<open>phi_zpf = (2 Ec / El)\<close> to the power \<open>0.25\<close>;
  the linear Hamiltonian \<open>omega (a_dag a + 0.5 id)\<close> with \<open>omega = sqrt(8 Ec El)\<close>; and the
  full Hamiltonian, the linear one minus \<open>Ej\<close> times
  \<open>cosm(phi) cos(2 pi phi_ext) + sinm(phi) sin(2 pi phi_ext)\<close>, the matrix functions taken of
  the whole flux operator.
\<close>

definition spec_fluxonium_phi :: "FluxDevice \<Rightarrow> cmat" where
  "spec_fluxonium_phi d =
     (let n = N_pre_diag d
      in tabulate2 n n (\<lambda>i j.
           of_real ((2 * Ec (params d) / El (params d)) powr 0.25)
           * (entry (destroy n) i j + entry (create n) i j)))"

definition spec_H_linear :: "FluxDevice \<Rightarrow> cmat" where
  "spec_H_linear d =
     (let n = N_pre_diag d
      in tabulate2 n n (\<lambda>i j.
           of_real (sqrt (8 * Ec (params d) * El (params d)))
           * ((\<Sum>k<n. entry (create n) i k * entry (destroy n) k j)
              + 1 / 2 * entry (identity n) i j)))"

definition spec_H_full :: "numerics \<Rightarrow> FluxDevice \<Rightarrow> cmat" where
  "spec_H_full nm d =
     (let n = N_pre_diag d; phi = spec_fluxonium_phi d
      in tabulate2 n n (\<lambda>i j.
           entry (spec_H_linear d) i j
           - of_real (Ej (params d))
             * (entry (cosm nm phi) i j * of_real (cos (2 * pi * phi_ext (params d)))
                + entry (sinm nm phi) i j * of_real (sin (2 * pi * phi_ext (params d))))))"

section \<open>Example inputs\<close>

definition example_params :: params where
  "example_params = \<lparr>Ec = 1, El = 4, Ej = 1, ng = 0, phi_ext = 0\<rparr>"

definition example_fluxonium :: "HamiltonianTypes \<Rightarrow> FluxDevice" where
  "example_fluxonium h =
     \<lparr>N = 2, params = example_params, label = 0, use_linear = False,
      N_pre_diag = 3, hamiltonian = h\<rparr>"

definition zero_Ec_fluxonium :: FluxDevice where
  "zero_Ec_fluxonium =
     \<lparr>N = 2, params = \<lparr>Ec = 0, El = 4, Ej = 1, ng = 0, phi_ext = 0\<rparr>, label = 0,
      use_linear = False, N_pre_diag = 3, hamiltonian = full\<rparr>"

text \<open>The eigenvectors of the Hamiltonian of the transmon with \<open>N_max_charge = 1\<close> and
  the example parameters, as columns in the order of the eigenvalues \<open>0\<close>, \<open>1/2\<close>, \<open>3/2\<close>.\<close>

definition example_vecs :: cmat where
  "example_vecs = Mat 3 3 [[0, 1 / sqrt 2, 1 / sqrt 2], [1, 0, 0], [0, 1 / sqrt 2, - (1 / sqrt 2)]]"

text \<open>The first terms of the power series of the matrix cosine and sine, the identity and
  the argument itself: a pair of functions that meets the contract of the numerics.\<close>

definition leading_terms :: numerics where
  "leading_terms =
     \<lparr>cosm = (\<lambda>A. tabulate2 (nrows A) (ncols A) (\<lambda>i j. if i = j then 1 else 0)),
      sinm = (\<lambda>A. A)\<rparr>"

section \<open>Arrays: basic facts\<close>

lemma and_then_Inr [simp]: "and_then (Inr x) f = f x"
  by (simp add: and_then_def)
lemma and_then_Inl [simp]: "and_then (Inl e) f = Inl e"
  by (simp add: and_then_def)

lemma nrows_tabulate2 [simp]: "nrows (tabulate2 r c f) = r"
  by (simp add: tabulate2_def)
lemma ncols_tabulate2 [simp]: "ncols (tabulate2 r c f) = c"
  by (simp add: tabulate2_def)
lemma entry_tabulate2 [simp]: "i < r \<Longrightarrow> j < c \<Longrightarrow> entry (tabulate2 r c f) i j = f i j"
  by (simp add: tabulate2_def entry_def)
lemma wf_tabulate2 [simp]: "wf_mat (tabulate2 r c f)"
  by (simp add: tabulate2_def wf_mat_def list_all_iff)

lemma tabulate2_cong:
  "r = r' \<Longrightarrow> c = c' \<Longrightarrow> (\<And>i j. i < r' \<Longrightarrow> j < c' \<Longrightarrow> f i j = g i j) \<Longrightarrow>
   tabulate2 r c f = tabulate2 r' c' g"
  by (simp add: tabulate2_def)

lemma tabulate2_entry: "wf_mat A \<Longrightarrow> tabulate2 (nrows A) (ncols A) (entry A) = A"
proof (cases A)
  case (Mat r c xss)
  assume "wf_mat A"
  with Mat have len: "length xss = r" and row: "\<And>i. i < r \<Longrightarrow> length (xss ! i) = c"
    by (auto simp: wf_mat_def list_all_iff)
  have "map (\<lambda>i. map (\<lambda>j. xss ! i ! j) [0..<c]) [0..<r] = xss"
  proof (rule nth_equalityI)
    show "length (map (\<lambda>i. map (\<lambda>j. xss ! i ! j) [0..<c]) [0..<r]) = length xss"
      by (simp add: len)
  next
    fix i assume "i < length (map (\<lambda>i. map (\<lambda>j. xss ! i ! j) [0..<c]) [0..<r])"
    then have i: "i < r" by simp
    have "map (\<lambda>j. xss ! i ! j) [0..<c] = xss ! i"
      by (rule nth_equalityI) (simp_all add: row [OF i])
    with i show "map (\<lambda>i. map (\<lambda>j. xss ! i ! j) [0..<c]) [0..<r] ! i = xss ! i"
      by simp
  qed
  moreover have "entry (Mat r c xss) = (\<lambda>i j. xss ! i ! j)"
    by (intro ext) (simp add: entry_def)
  ultimately show ?thesis
    using Mat by (simp add: tabulate2_def)
qed

lemma mat_eqI:
  assumes "wf_mat A" "wf_mat B" "nrows A = nrows B" "ncols A = ncols B"
    and "\<And>i j. i < nrows B \<Longrightarrow> j < ncols B \<Longrightarrow> entry A i j = entry B i j"
  shows "A = B"
proof -
  have "tabulate2 (nrows A) (ncols A) (entry A) = tabulate2 (nrows B) (ncols B) (entry B)"
    using assms(3,4,5) by (simp add: tabulate2_def)
  with assms(1,2) show ?thesis by (simp add: tabulate2_entry)
qed

lemma dagger_tabulate2:
  "dagger A = tabulate2 (ncols A) (nrows A) (\<lambda>i j. cnj (entry A j i))"
  by (simp add: dagger_def conjugate_def transpose_mat_def cong: tabulate2_cong)

lemma hermitian_iff:
  "hermitian A \<longleftrightarrow>
     wf_mat A \<and> nrows A = ncols A \<and>
     (\<forall>i<nrows A. \<forall>j<nrows A. entry A j i = cnj (entry A i j))"
proof
  assume h: "hermitian A"
  then have d: "dagger A = A"
    by (simp add: hermitian_def)
  have "wf_mat (dagger A)" by (simp add: dagger_tabulate2)
  then have wf: "wf_mat A" unfolding d .
  have "nrows (dagger A) = ncols A" by (simp add: dagger_tabulate2)
  then have sq: "nrows A = ncols A" unfolding d .
  have "entry A j i = cnj (entry A i j)" if "i < nrows A" "j < nrows A" for i j
  proof -
    have "entry (dagger A) j i = cnj (entry A i j)"
      using that sq by (simp add: dagger_tabulate2)
    then show ?thesis unfolding d .
  qed
  with wf sq show "wf_mat A \<and> nrows A = ncols A \<and>
     (\<forall>i<nrows A. \<forall>j<nrows A. entry A j i = cnj (entry A i j))" by blast
next
  assume a: "wf_mat A \<and> nrows A = ncols A \<and>
     (\<forall>i<nrows A. \<forall>j<nrows A. entry A j i = cnj (entry A i j))"
  then have wf: "wf_mat A" and sq: "nrows A = ncols A"
    and sym: "\<And>i j. i < nrows A \<Longrightarrow> j < nrows A \<Longrightarrow> cnj (entry A j i) = entry A i j"
    by (blast, blast, metis complex_cnj_cnj)
  have "dagger A = A"
  proof (rule mat_eqI)
    show "wf_mat (dagger A)" by (simp add: dagger_tabulate2)
    show "wf_mat A" by (rule wf)
    show "nrows (dagger A) = nrows A" using sq by (simp add: dagger_tabulate2)
    show "ncols (dagger A) = ncols A" using sq by (simp add: dagger_tabulate2)
    fix i j assume "i < nrows A" "j < ncols A"
    then show "entry (dagger A) i j = entry A i j"
      using sq by (simp add: dagger_tabulate2 sym)
  qed
  then show "hermitian A" by (simp add: hermitian_def)
qed

lemma hermitian_tabulate2:
  "hermitian (tabulate2 n n f) \<longleftrightarrow> (\<forall>i<n. \<forall>j<n. f j i = cnj (f i j))"
  by (simp add: hermitian_iff)

lemma madd_Inr:
  "same_shape A B \<Longrightarrow>
   madd A B = Inr (tabulate2 (nrows A) (ncols A) (\<lambda>i j. entry A i j + entry B i j))"
  by (simp add: madd_def)

lemma msub_Inr:
  "same_shape A B \<Longrightarrow>
   msub A B = Inr (tabulate2 (nrows A) (ncols A) (\<lambda>i j. entry A i j - entry B i j))"
  by (simp add: msub_def)

section \<open>SingleChargeTransmon: operators and Hamiltonian\<close>

lemma length_arange [simp]: "length (arange lo hi) = nat (hi - lo)"
  by (simp add: arange_def)

lemma nth_arange [simp]: "i < nat (hi - lo) \<Longrightarrow> arange lo hi ! i = lo + int i"
  by (simp add: arange_def)

lemma build_n_op_eq: "SingleChargeTransmon_build_n_op d = spec_n_op (N_max_charge d)"
  unfolding SingleChargeTransmon_build_n_op_def spec_n_op_def diag_def
  by (rule tabulate2_cong) (simp_all add: nat_add_distrib)

lemma eye_sum:
  "madd (eye n k) (eye n l) =
     Inr (tabulate2 n n (\<lambda>i j. (if int j = int i + k then 1 else 0) + (if int j = int i + l then 1 else 0)))"
  by (simp add: madd_def same_shape_def eye_def cong: tabulate2_cong)

lemma eye_diff:
  "msub (eye n k) (eye n l) =
     Inr (tabulate2 n n (\<lambda>i j. (if int j = int i + k then 1 else 0) - (if int j = int i + l then 1 else 0)))"
  by (simp add: msub_def same_shape_def eye_def cong: tabulate2_cong)

lemma build_cos_phi_op_eq:
  "SingleChargeTransmon_build_cos_phi_op d = Inr (spec_cos_phi (N_max_charge d))"
  unfolding SingleChargeTransmon_build_cos_phi_op_def spec_cos_phi_def eye_sum
  by (simp add: smult_def) (rule tabulate2_cong, auto)

lemma build_cos_phi_2_op_Inr:
  "\<exists>c. SingleChargeTransmon_build_cos_phi_2_op d = Inr c"
  by (simp add: SingleChargeTransmon_build_cos_phi_2_op_def eye_sum)

lemma build_sin_phi_2_op_Inr:
  "\<exists>c. SingleChargeTransmon_build_sin_phi_2_op d = Inr c"
  by (simp add: SingleChargeTransmon_build_sin_phi_2_op_def eye_diff)

lemma common_ops_valid:
  assumes "N d \<le> 2 * N_max_charge d + 1"
  shows "\<exists>ops. SingleChargeTransmon_common_ops d = Inr ops
           \<and> ops ''n'' = Some (spec_n_op (N_max_charge d))
           \<and> ops ''cos(phi)'' = Some (spec_cos_phi (N_max_charge d))"
proof -
  obtain c2 where c2: "SingleChargeTransmon_build_cos_phi_2_op d = Inr c2"
    using build_cos_phi_2_op_Inr by blast
  obtain s2 where s2: "SingleChargeTransmon_build_sin_phi_2_op d = Inr s2"
    using build_sin_phi_2_op_Inr by blast
  show ?thesis
    using assms by (simp add: SingleChargeTransmon_common_ops_def build_cos_phi_op_eq c2 s2 build_n_op_eq)
qed

lemma common_ops_invalid:
  "2 * N_max_charge d + 1 < N d \<Longrightarrow> SingleChargeTransmon_common_ops d = Inl AssertionError"
  by (simp add: SingleChargeTransmon_common_ops_def)

lemma charging_diag:
  "diag (map of_real (vscale e (vsquare (vsub (map of_int (arange (- int M) (int M + 1))) (vscale g (ones (2 * M + 1)))))))
   = tabulate2 (2 * M + 1) (2 * M + 1) (\<lambda>i j. if i = j then of_real (e * (of_int (int i - int M) - g) ^ 2) else 0)"
  unfolding diag_def
  by (rule tabulate2_cong)
    (simp_all add: vscale_def vsquare_def vsub_def ones_def nat_add_distrib del: replicate.simps)

lemma get_H_full_valid:
  assumes "N d \<le> 2 * N_max_charge d + 1"
  shows "SingleChargeTransmon_get_H_full d = Inr (spec_transmon_H (params d) (N_max_charge d))"
proof -
  obtain ops where ops: "SingleChargeTransmon_common_ops d = Inr ops"
      "ops ''cos(phi)'' = Some (spec_cos_phi (N_max_charge d))"
    using common_ops_valid [OF assms] by blast
  have "SingleChargeTransmon_get_H_full d =
          msub (tabulate2 (2 * N_max_charge d + 1) (2 * N_max_charge d + 1)
                  (\<lambda>i j. if i = j
                     then of_real (Ec (params d) * (of_int (int i - int (N_max_charge d)) - 2 * ng (params d)) ^ 2)
                     else 0))
               (smult (of_real (Ej (params d))) (spec_cos_phi (N_max_charge d)))"
    by (simp only: SingleChargeTransmon_get_H_full_def Let_def charging_diag
        SingleChargeTransmon_linear_ops_def ops and_then_Inr lookup_def option.case)
  also have "\<dots> = Inr (spec_transmon_H (params d) (N_max_charge d))"
    by (simp add: msub_def same_shape_def smult_def spec_transmon_H_def spec_cos_phi_def
        cong: tabulate2_cong)
  finally show ?thesis .
qed

lemma get_H_full_invalid:
  "2 * N_max_charge d + 1 < N d \<Longrightarrow> SingleChargeTransmon_get_H_full d = Inl AssertionError"
  by (simp add: SingleChargeTransmon_get_H_full_def SingleChargeTransmon_linear_ops_def common_ops_invalid)

lemma hermitian_spec_transmon_H: "hermitian (spec_transmon_H p M)"
  unfolding spec_transmon_H_def hermitian_tabulate2
  by (auto simp: spec_cos_phi_def)

lemma create_sel [simp]:
  "N (SingleChargeTransmon_create n m p l u) = n"
  "N_max_charge (SingleChargeTransmon_create n m p l u) = m"
  "params (SingleChargeTransmon_create n m p l u) = p"
  "use_linear (SingleChargeTransmon_create n m p l u) = u"
  by (simp_all add: SingleChargeTransmon_create_def)

section \<open>Claims about the SingleChargeTransmon\<close>

lemma spec_n_op_1: "spec_n_op (Suc 0) = Mat 3 3 [[- 1, 0, 0], [0, 0, 0], [0, 0, 1]]"
  by (simp add: spec_n_op_def tabulate2_def upt_conv_Cons)

lemma spec_cos_phi_1: "spec_cos_phi (Suc 0) = Mat 3 3 [[0, 0, 1 / 2], [0, 0, 0], [1 / 2, 0, 0]]"
  by (simp add: spec_cos_phi_def tabulate2_def upt_conv_Cons)

lemma spec_transmon_H_example:
  "spec_transmon_H example_params (Suc 0) = Mat 3 3 [[1, 0, - (1 / 2)], [0, 0, 0], [- (1 / 2), 0, 1]]"
  by (simp add: spec_transmon_H_def spec_cos_phi_1 entry_def example_params_def tabulate2_def upt_conv_Cons)

text \<open>
  Claim C2. \<open>get_H_linear()\<close> of a SingleChargeTransmon never returns a Hamiltonian: it
  always raises. The exception it raises is the \<open>TypeError\<close> of calling the
  \<open>NotImplemented\<close> singleton, not a not-implemented error carrying the source's message.
  The theorem evaluates the call on the device created with \<open>N = 3\<close>, \<open>N_max_charge = 1\<close>.
\<close>

theorem get_H_linear_raises_type_error:
  "SingleChargeTransmon_get_H_linear (SingleChargeTransmon_create 3 1 example_params 0 False)
     = Inl (TypeError ''NotImplementedType object is not callable'')"
  by (simp add: SingleChargeTransmon_get_H_linear_def)

text \<open>
  Claim C3. \<open>common_ops()\<close> fails with the assertion error when
  \<open>N > 2 * N_max_charge + 1\<close>, and returns the operator dictionary whenever
  \<open>N \<le> 2 * N_max_charge + 1\<close>.
\<close>

theorem common_ops_truncation_check:
  "(2 * N_max_charge d + 1 < N d \<longrightarrow> SingleChargeTransmon_common_ops d = Inl AssertionError) \<and>
   (N d \<le> 2 * N_max_charge d + 1 \<longrightarrow> (\<exists>ops. SingleChargeTransmon_common_ops d = Inr ops))"
  using common_ops_valid [of d] common_ops_invalid [of d] by blast

theorem common_ops_truncation_check_witness:
  "2 * (1::nat) + 1 < 4 \<and>
   SingleChargeTransmon_common_ops (SingleChargeTransmon_create 4 1 example_params 0 False)
     = Inl AssertionError \<and>
   (3::nat) \<le> 2 * 1 + 1 \<and>
   (\<exists>ops. SingleChargeTransmon_common_ops (SingleChargeTransmon_create 3 1 example_params 0 False)
     = Inr ops)"
  using common_ops_truncation_check [of "SingleChargeTransmon_create 4 1 example_params 0 False"]
    common_ops_truncation_check [of "SingleChargeTransmon_create 3 1 example_params 0 False"]
  by simp

text \<open>
  Claim C4. For \<open>N \<le> 2 * N_max_charge + 1\<close>, the entry \<open>"n"\<close> of \<open>common_ops()\<close> is
  exactly the square matrix of dimension \<open>2 * N_max_charge + 1\<close> with the integers
  \<open>-N_max_charge, ..., N_max_charge\<close> on the diagonal and zero elsewhere.
\<close>

theorem common_ops_n_is_charge_diagonal:
  "N d \<le> 2 * N_max_charge d + 1 \<Longrightarrow>
   \<exists>ops. SingleChargeTransmon_common_ops d = Inr ops \<and>
         ops ''n'' = Some (spec_n_op (N_max_charge d))"
  using common_ops_valid [of d] by blast

theorem common_ops_n_is_charge_diagonal_witness:
  "(3::nat) \<le> 2 * 1 + 1 \<and>
   (\<exists>ops. SingleChargeTransmon_common_ops (SingleChargeTransmon_create 3 1 example_params 0 False)
            = Inr ops \<and>
          ops ''n'' = Some (Mat 3 3 [[- 1, 0, 0], [0, 0, 0], [0, 0, 1]]))"
  using common_ops_n_is_charge_diagonal [of "SingleChargeTransmon_create 3 1 example_params 0 False"]
  by (simp add: spec_n_op_1)

text \<open>
  Claim C6, as stated for every SingleChargeTransmon, fails on a device whose truncation
  is too large: \<open>get_H_full()\<close> reads \<open>linear_ops\<close>, which runs \<open>common_ops()\<close> and its
  assertion, so with \<open>N = 4\<close> and \<open>N_max_charge = 1\<close> no Hamiltonian is returned.
\<close>

theorem get_H_full_every_device_counterexample:
  "SingleChargeTransmon_get_H_full (SingleChargeTransmon_create 4 1 example_params 0 False)
     \<noteq> Inr (spec_transmon_H example_params 1)"
  by (simp add: get_H_full_invalid)

text \<open>
  Claim C6, amended. For every SingleChargeTransmon with \<open>N \<le> 2 * N_max_charge + 1\<close>,
  \<open>get_H_full()\<close> returns the diagonal matrix with entries \<open>Ec (n - 2 ng)\<^sup>2\<close> for
  \<open>n = -N_max_charge, ..., N_max_charge\<close> minus \<open>Ej\<close> times the \<open>cos(phi)\<close> operator; with
  \<open>N > 2 * N_max_charge + 1\<close> it fails with the assertion error of \<open>common_ops()\<close>. The
  \<open>cos(phi)\<close> operator has \<open>1/2\<close> between charge states two apart and zero elsewhere; for
  \<open>N_max_charge = 1\<close> it is the 3 by 3 matrix with \<open>1/2\<close> at positions (0,2) and (2,0).
\<close>

theorem get_H_full_charge_basis:
  "(N d \<le> 2 * N_max_charge d + 1 \<longrightarrow>
      SingleChargeTransmon_get_H_full d = Inr (spec_transmon_H (params d) (N_max_charge d))) \<and>
   (2 * N_max_charge d + 1 < N d \<longrightarrow> SingleChargeTransmon_get_H_full d = Inl AssertionError) \<and>
   SingleChargeTransmon_build_cos_phi_op d = Inr (spec_cos_phi (N_max_charge d)) \<and>
   (N_max_charge d = 1 \<longrightarrow>
      SingleChargeTransmon_build_cos_phi_op d
        = Inr (Mat 3 3 [[0, 0, 1 / 2], [0, 0, 0], [1 / 2, 0, 0]]))"
  using get_H_full_valid [of d] get_H_full_invalid [of d] build_cos_phi_op_eq [of d]
  by (simp add: spec_cos_phi_1)

theorem get_H_full_charge_basis_witness:
  "(3::nat) \<le> 2 * 1 + 1 \<and>
   SingleChargeTransmon_get_H_full (SingleChargeTransmon_create 3 1 example_params 0 False)
     = Inr (Mat 3 3 [[1, 0, - (1 / 2)], [0, 0, 0], [- (1 / 2), 0, 1]]) \<and>
   2 * (1::nat) + 1 < 4 \<and>
   SingleChargeTransmon_get_H_full (SingleChargeTransmon_create 4 1 example_params 0 False)
     = Inl AssertionError \<and>
   SingleChargeTransmon_build_cos_phi_op (SingleChargeTransmon_create 3 1 example_params 0 False)
     = Inr (Mat 3 3 [[0, 0, 1 / 2], [0, 0, 0], [1 / 2, 0, 0]])"
  using get_H_full_charge_basis [of "SingleChargeTransmon_create 3 1 example_params 0 False"]
    get_H_full_charge_basis [of "SingleChargeTransmon_create 4 1 example_params 0 False"]
  by (simp add: spec_transmon_H_example spec_cos_phi_1)

lemma orthonormal_columnsD:
  "orthonormal_columns V \<Longrightarrow> i < ncols V \<Longrightarrow> j < ncols V \<Longrightarrow>
   (\<Sum>k<nrows V. cnj (entry V k i) * entry V k j) = (if i = j then 1 else 0)"
  by (simp add: orthonormal_columns_def list_all_iff)

lemma nrows_spec_transmon_H [simp]: "nrows (spec_transmon_H p M) = 2 * M + 1"
  and ncols_spec_transmon_H [simp]: "ncols (spec_transmon_H p M) = 2 * M + 1"
  by (simp_all add: spec_transmon_H_def)

lemma eig_vecs_contractD:
  assumes "SingleChargeTransmon_eig_vecs_contract d vecs"
  shows "N d \<le> 2 * N_max_charge d + 1" and "wf_mat vecs"
    and "nrows vecs = 2 * N_max_charge d + 1" and "ncols vecs = 2 * N_max_charge d + 1"
    and "orthonormal_columns vecs"
proof -
  have nl: "\<not> use_linear d"
    using assms
    by (auto simp: SingleChargeTransmon_eig_vecs_contract_def SingleChargeTransmon_get_H_linear_def)
  show le: "N d \<le> 2 * N_max_charge d + 1"
  proof (rule ccontr)
    assume "\<not> N d \<le> 2 * N_max_charge d + 1"
    then have "SingleChargeTransmon_get_H_full d = Inl AssertionError"
      by (simp add: get_H_full_invalid)
    with assms nl show False
      by (simp add: SingleChargeTransmon_eig_vecs_contract_def)
  qed
  have "SingleChargeTransmon_get_H_full d = Inr (spec_transmon_H (params d) (N_max_charge d))"
    using le by (rule get_H_full_valid)
  with assms nl show "wf_mat vecs" "nrows vecs = 2 * N_max_charge d + 1"
    "ncols vecs = 2 * N_max_charge d + 1" "orthonormal_columns vecs"
    by (simp_all add: SingleChargeTransmon_eig_vecs_contract_def same_shape_def)
qed

lemma nrows_eye [simp]: "nrows (eye n k) = n"
  and ncols_eye [simp]: "ncols (eye n k) = n"
  by (simp_all add: eye_def)

lemma dot_eye_left:
  assumes "nrows A = n"
  shows "dot (eye n 0) A = Inr (tabulate2 n (ncols A) (entry A))"
proof -
  have "(\<Sum>k<n. entry (eye n 0) i k * entry A k j) = entry A i j" if "i < n" for i j
  proof -
    have "(\<Sum>k<n. entry (eye n 0) i k * entry A k j)
            = (\<Sum>k<n. if k = i then entry A k j else 0)"
      using that by (intro sum.cong) (auto simp: eye_def)
    also have "\<dots> = entry A i j"
      using that by (simp add: sum.delta)
    finally show ?thesis .
  qed
  then show ?thesis
    using assms by (simp add: dot_def cong: tabulate2_cong)
qed

lemma example_vecs_contract:
  "SingleChargeTransmon_eig_vecs_contract
     (SingleChargeTransmon_create 2 1 example_params 0 False) example_vecs"
  by (simp add: SingleChargeTransmon_eig_vecs_contract_def get_H_full_valid
      example_vecs_def wf_mat_def same_shape_def orthonormal_columns_def entry_def
      upt_conv_Cons lessThan_nat_numeral lessThan_Suc flip: of_real_mult)

text \<open>
  Claim C9. When the cached \<open>eig_systems["vecs"]\<close> meets the contract of the
  diagonalisation (the Hamiltonian was built, \<open>vecs\<close> has its shape, the columns of
  \<open>vecs\<close> are orthonormal), \<open>get_op_in_H_eigenbasis\<close> applied to the identity of the
  working dimension \<open>2 * N_max_charge + 1\<close> returns exactly the \<open>N\<close> by \<open>N\<close> identity.
\<close>

theorem identity_projects_to_identity:
  assumes "SingleChargeTransmon_eig_vecs_contract d vecs"
  shows "SingleChargeTransmon_get_op_in_H_eigenbasis d vecs (eye (2 * N_max_charge d + 1) 0)
           = Inr (eye (N d) 0)"
proof -
  let ?D = "2 * N_max_charge d + 1"
  note c = eig_vecs_contractD [OF assms]
  let ?E = "take_cols (N d) vecs"
  have E: "?E = tabulate2 ?D (N d) (entry vecs)"
    using c(1,3,4) by (simp add: take_cols_def min_def)
  have inner: "dot (eye ?D 0) ?E = Inr ?E"
    by (subst dot_eye_left [of ?E ?D]) (simp_all add: E cong: tabulate2_cong)
  have dag: "conjugate (transpose_mat ?E) = tabulate2 (N d) ?D (\<lambda>i j. cnj (entry vecs j i))"
    by (simp add: E conjugate_def transpose_mat_def cong: tabulate2_cong)
  have "dot (conjugate (transpose_mat ?E)) ?E
          = Inr (tabulate2 (N d) (N d) (\<lambda>i j. \<Sum>k<?D. cnj (entry vecs k i) * entry vecs k j))"
    unfolding dag by (simp add: E dot_def cong: tabulate2_cong)
  also have "tabulate2 (N d) (N d) (\<lambda>i j. \<Sum>k<?D. cnj (entry vecs k i) * entry vecs k j)
               = eye (N d) 0"
    unfolding eye_def
  proof (rule tabulate2_cong)
    fix i j assume "i < N d" "j < N d"
    then have "i < ncols vecs" "j < ncols vecs" using c(1,4) by simp_all
    from orthonormal_columnsD [OF c(5) this]
    show "(\<Sum>k<?D. cnj (entry vecs k i) * entry vecs k j) = (if int j = int i + 0 then 1 else 0)"
      by (auto simp: c(3))
  qed simp_all
  finally have outer: "dot (conjugate (transpose_mat ?E)) ?E = Inr (eye (N d) 0)" .
  show ?thesis
    unfolding SingleChargeTransmon_get_op_in_H_eigenbasis_def Let_def inner and_then_Inr
    by (rule outer)
qed

theorem identity_projects_to_identity_witness:
  "SingleChargeTransmon_eig_vecs_contract
     (SingleChargeTransmon_create 2 1 example_params 0 False) example_vecs \<and>
   SingleChargeTransmon_get_op_in_H_eigenbasis
     (SingleChargeTransmon_create 2 1 example_params 0 False) example_vecs (eye 3 0)
     = Inr (Mat 2 2 [[1, 0], [0, 1]])"
  using identity_projects_to_identity [OF example_vecs_contract] example_vecs_contract
  by (simp add: eye_def tabulate2_def upt_conv_Cons)

section \<open>Claims about the scalar functions of the Fluxonium\<close>

lemma quarter_powr_pos:
  fixes x :: real
  assumes "0 < x"
  shows "0 < x powr 0.25" and "(x powr 0.25) ^ 4 = x"
proof -
  show "0 < x powr 0.25" using assms by simp
  have "(x powr 0.25) ^ 4 = (x powr 0.25) powr (real 4)"
    using assms by (simp only: powr_realpow [OF \<open>0 < x powr 0.25\<close>])
  also have "\<dots> = x powr (0.25 * real 4)"
    by (simp only: powr_powr)
  also have "\<dots> = x" using assms by simp
  finally show "(x powr 0.25) ^ 4 = x" .
qed

lemma float_div_Inr [simp]: "y \<noteq> 0 \<Longrightarrow> float_div x y = Inr (x / y)"
  by (simp add: float_div_def)

lemma float_pow_quarter_nonneg: "0 \<le> x \<Longrightarrow> float_pow_quarter x = of_real (x powr 0.25)"
  by (simp add: float_pow_quarter_def)

lemma Fluxonium_zpf_positive:
  assumes "0 < Ec (params d)" and "0 < El (params d)"
  shows "Fluxonium_n_zpf d = Inr (of_real ((El (params d) / (32 * Ec (params d))) powr 0.25))"
    and "Fluxonium_phi_zpf d = Inr (of_real ((2 * Ec (params d) / El (params d)) powr 0.25))"
  using assms
  by (simp_all add: Fluxonium_n_zpf_def Fluxonium_phi_zpf_def float_pow_quarter_nonneg)

text \<open>
  Claim C7. \<open>potential(phi)\<close> returns \<open>0.5 El (2 pi phi)\<^sup>2\<close> when the selector is
  \<open>linear\<close>, that value minus \<open>Ej cos(2 pi (phi - phi_ext))\<close> when the selector is \<open>full\<close>,
  and \<open>None\<close>, with no error raised, for any other selector. At \<open>phi = 0\<close> the two
  values are \<open>0\<close> and \<open>-Ej cos(-2 pi phi_ext)\<close>.
\<close>

theorem potential_by_selector:
  "(hamiltonian d = linear \<longrightarrow>
      Fluxonium_potential d phi = Some (0.5 * El (params d) * (2 * pi * phi) ^ 2)) \<and>
   (hamiltonian d = full \<longrightarrow>
      Fluxonium_potential d phi =
        Some (0.5 * El (params d) * (2 * pi * phi) ^ 2
              - Ej (params d) * cos (2 * pi * (phi - phi_ext (params d))))) \<and>
   (hamiltonian d \<noteq> linear \<and> hamiltonian d \<noteq> full \<longrightarrow> Fluxonium_potential d phi = None) \<and>
   (hamiltonian d = linear \<longrightarrow> Fluxonium_potential d 0 = Some 0) \<and>
   (hamiltonian d = full \<longrightarrow>
      Fluxonium_potential d 0 = Some (- Ej (params d) * cos (- 2 * pi * phi_ext (params d))))"
  by (simp add: Fluxonium_potential_def Let_def)

theorem potential_by_selector_witness:
  "hamiltonian (example_fluxonium linear) = linear \<and>
   Fluxonium_potential (example_fluxonium linear) 0 = Some 0 \<and>
   hamiltonian (example_fluxonium full) = full \<and>
   Fluxonium_potential (example_fluxonium full) 0 = Some (- 1) \<and>
   hamiltonian (example_fluxonium other_type) \<noteq> linear \<and>
   hamiltonian (example_fluxonium other_type) \<noteq> full \<and>
   Fluxonium_potential (example_fluxonium other_type) 0 = None"
  using potential_by_selector [of "example_fluxonium linear" 0]
    potential_by_selector [of "example_fluxonium full" 0]
    potential_by_selector [of "example_fluxonium other_type" 0]
  by (simp add: example_fluxonium_def example_params_def)

text \<open>
  Claim C8. For positive \<open>Ec\<close> and \<open>El\<close>, \<open>n_zpf()\<close> returns \<open>(El / (32 Ec))\<close> to the
  power \<open>0.25\<close> and \<open>phi_zpf()\<close> returns \<open>(2 Ec / El)\<close> to the power \<open>0.25\<close>: each is the
  positive fourth root of its base. With \<open>Ec = 1\<close> and \<open>El = 4\<close> the values are
  \<open>(2 * 1 / 4)\<close> and \<open>(4 / 32)\<close> to the power \<open>0.25\<close>.
\<close>

theorem zpf_values:
  assumes "0 < Ec (params d)" and "0 < El (params d)"
  shows "Fluxonium_n_zpf d = Inr (of_real ((El (params d) / (32 * Ec (params d))) powr 0.25)) \<and>
         Fluxonium_phi_zpf d = Inr (of_real ((2 * Ec (params d) / El (params d)) powr 0.25)) \<and>
         0 < (El (params d) / (32 * Ec (params d))) powr 0.25 \<and>
         ((El (params d) / (32 * Ec (params d))) powr 0.25) ^ 4 = El (params d) / (32 * Ec (params d)) \<and>
         0 < (2 * Ec (params d) / El (params d)) powr 0.25 \<and>
         ((2 * Ec (params d) / El (params d)) powr 0.25) ^ 4 = 2 * Ec (params d) / El (params d)"
proof -
  have a: "0 < El (params d) / (32 * Ec (params d))" using assms by simp
  have b: "0 < 2 * Ec (params d) / El (params d)" using assms by simp
  show ?thesis
    using Fluxonium_zpf_positive [OF assms] quarter_powr_pos [OF a] quarter_powr_pos [OF b]
    by simp
qed

theorem zpf_values_witness:
  "0 < Ec (params (example_fluxonium full)) \<and> 0 < El (params (example_fluxonium full)) \<and>
   Ec (params (example_fluxonium full)) = 1 \<and> El (params (example_fluxonium full)) = 4 \<and>
   Fluxonium_phi_zpf (example_fluxonium full) = Inr (of_real ((2 * 1 / 4) powr 0.25)) \<and>
   Fluxonium_n_zpf (example_fluxonium full) = Inr (of_real ((4 / 32) powr 0.25))"
proof -
  have h: "0 < Ec (params (example_fluxonium full))" "0 < El (params (example_fluxonium full))"
    by (simp_all add: example_fluxonium_def example_params_def)
  show ?thesis
    using zpf_values [OF h] by (simp add: example_fluxonium_def example_params_def)
qed

section \<open>Fluxonium: operators and Hamiltonians\<close>

lemma nrows_ladder [simp]:
  "nrows (destroy n) = n" "ncols (destroy n) = n"
  "nrows (create n) = n" "ncols (create n) = n"
  "nrows (identity n) = n" "ncols (identity n) = n"
  by (simp_all add: destroy_def create_def identity_def)

lemma nrows_smult [simp]: "nrows (smult s A) = nrows A"
  and ncols_smult [simp]: "ncols (smult s A) = ncols A"
  by (simp_all add: smult_def)

lemma entry_smult [simp]:
  "i < nrows A \<Longrightarrow> j < ncols A \<Longrightarrow> entry (smult s A) i j = s * entry A i j"
  by (simp add: smult_def)

lemma wf_smult [simp]: "wf_mat (smult s A)"
  by (simp add: smult_def)

lemma Fluxonium_common_ops_eq:
  assumes "0 < Ec (params d)" and "0 < El (params d)"
  shows "\<exists>ops. Fluxonium_common_ops nm d = Inr ops
        \<and> ops ''id'' = Some (identity (N_pre_diag d))
        \<and> ops ''a'' = Some (destroy (N_pre_diag d))
        \<and> ops ''a_dag'' = Some (create (N_pre_diag d))
        \<and> ops ''phi'' = Some (spec_fluxonium_phi d)"
  by (simp add: Fluxonium_common_ops_def Let_def madd_def msub_def same_shape_def
      spec_fluxonium_phi_def Fluxonium_zpf_positive [OF assms] smult_def cong: tabulate2_cong)

lemma Fluxonium_get_H_linear_eq:
  assumes "0 < Ec (params d)" and "0 < El (params d)"
  shows "Fluxonium_get_H_linear nm d = Inr (spec_H_linear d)"
proof -
  obtain ops where ops: "Fluxonium_common_ops nm d = Inr ops"
      "ops ''id'' = Some (identity (N_pre_diag d))"
      "ops ''a'' = Some (destroy (N_pre_diag d))"
      "ops ''a_dag'' = Some (create (N_pre_diag d))"
    using Fluxonium_common_ops_eq [OF assms] by blast
  show ?thesis
    by (simp add: Fluxonium_get_H_linear_def Fluxonium_linear_ops_def ops lookup_def Let_def
        dot_def madd_def same_shape_def spec_H_linear_def Fluxonium_get_linear_omega_def
        smult_def
        cong: tabulate2_cong)
qed

lemma wf_spec_fluxonium_phi [simp]: "wf_mat (spec_fluxonium_phi d)"
  and nrows_spec_fluxonium_phi [simp]: "nrows (spec_fluxonium_phi d) = N_pre_diag d"
  and ncols_spec_fluxonium_phi [simp]: "ncols (spec_fluxonium_phi d) = N_pre_diag d"
  by (simp_all add: spec_fluxonium_phi_def Let_def)

lemma nrows_spec_H_linear [simp]: "nrows (spec_H_linear d) = N_pre_diag d"
  and ncols_spec_H_linear [simp]: "ncols (spec_H_linear d) = N_pre_diag d"
  by (simp_all add: spec_H_linear_def Let_def)

lemma matrix_function_contractD:
  assumes "matrix_function_contract f" "wf_mat A" "nrows A = ncols A"
  shows "wf_mat (f A)" "nrows (f A) = nrows A" "ncols (f A) = ncols A"
    "hermitian A \<Longrightarrow> hermitian (f A)"
  using assms by (auto simp: matrix_function_contract_def same_shape_def)

lemma Fluxonium_get_H_full_eq:
  assumes "numerics_contract nm" and pos: "0 < Ec (params d)" "0 < El (params d)"
  shows "Fluxonium_get_H_full nm d = Inr (spec_H_full nm d)"
proof -
  obtain ops where ops: "Fluxonium_common_ops nm d = Inr ops"
      "ops ''phi'' = Some (spec_fluxonium_phi d)"
    using Fluxonium_common_ops_eq [OF pos] by blast
  have c: "matrix_function_contract (cosm nm)" and s: "matrix_function_contract (sinm nm)"
    using assms(1) by (simp_all add: numerics_contract_def)
  have sq: "nrows (spec_fluxonium_phi d) = ncols (spec_fluxonium_phi d)" by simp
  note cs = matrix_function_contractD(2,3) [OF c wf_spec_fluxonium_phi sq]
  note ss = matrix_function_contractD(2,3) [OF s wf_spec_fluxonium_phi sq]
  show ?thesis
    by (simp add: Fluxonium_get_H_full_def Fluxonium_linear_ops_def ops lookup_def Let_def
        Fluxonium_get_H_linear_eq [OF pos] madd_def msub_def same_shape_def cs ss spec_H_full_def
        mult.commute
        cong: tabulate2_cong)
qed

lemma create_destroy_sum:
  assumes "i < n" "j < n"
  shows "(\<Sum>k<n. entry (create n) i k * entry (destroy n) k j) = (if i = j then of_nat i else 0)"
proof (cases i)
  case 0
  have "(\<Sum>k<n. entry (create n) i k * entry (destroy n) k j) = (\<Sum>k<n. 0)"
    using assms 0 by (intro sum.cong) (auto simp: create_def destroy_def)
  then show ?thesis using 0 by simp
next
  case (Suc m)
  have m: "m \<in> {..<n}" using assms Suc by simp
  have "(\<Sum>k<n. entry (create n) i k * entry (destroy n) k j)
          = (\<Sum>k<n. if k = m then (if i = j then of_real (sqrt (real i)) * of_real (sqrt (real i)) else 0) else 0)"
    using assms Suc by (intro sum.cong) (auto simp: create_def destroy_def)
  also have "\<dots> = (if i = j then of_real (sqrt (real i)) * of_real (sqrt (real i)) else 0)"
    using m by (simp add: sum.delta)
  also have "\<dots> = (if i = j then of_nat i else 0)"
    by (simp flip: of_real_mult)
  finally show ?thesis .
qed

lemma spec_H_linear_levels:
  "spec_H_linear d =
     tabulate2 (N_pre_diag d) (N_pre_diag d) (\<lambda>i j.
       if i = j then of_real (sqrt (8 * Ec (params d) * El (params d)) * (real i + 1 / 2)) else 0)"
  unfolding spec_H_linear_def Let_def
  by (rule tabulate2_cong) (simp_all add: create_destroy_sum identity_def eye_def algebra_simps)

lemma hermitian_spec_H_linear: "hermitian (spec_H_linear d)"
  unfolding spec_H_linear_levels hermitian_tabulate2 by auto

lemma hermitian_spec_fluxonium_phi: "hermitian (spec_fluxonium_phi d)"
  unfolding spec_fluxonium_phi_def Let_def hermitian_tabulate2
  by (auto simp: create_def destroy_def)

lemma hermitian_entry:
  assumes "hermitian A" "i < nrows A" "j < nrows A"
  shows "cnj (entry A i j) = entry A j i"
proof -
  have "\<forall>i<nrows A. \<forall>j<nrows A. entry A j i = cnj (entry A i j)"
    using assms(1) unfolding hermitian_iff by blast
  with assms(2,3) show ?thesis by metis
qed

lemma hermitian_spec_H_full:
  assumes "numerics_contract nm"
  shows "hermitian (spec_H_full nm d)"
proof -
  have c: "matrix_function_contract (cosm nm)" and s: "matrix_function_contract (sinm nm)"
    using assms by (simp_all add: numerics_contract_def)
  have sq: "nrows (spec_fluxonium_phi d) = ncols (spec_fluxonium_phi d)" by simp
  note cs = matrix_function_contractD [OF c wf_spec_fluxonium_phi sq]
  note ss = matrix_function_contractD [OF s wf_spec_fluxonium_phi sq]
  have hc: "hermitian (cosm nm (spec_fluxonium_phi d))"
    by (rule cs(4)) (rule hermitian_spec_fluxonium_phi)
  have hs: "hermitian (sinm nm (spec_fluxonium_phi d))"
    by (rule ss(4)) (rule hermitian_spec_fluxonium_phi)
  have hl: "hermitian (spec_H_linear d)" by (rule hermitian_spec_H_linear)
  show ?thesis
    unfolding spec_H_full_def Let_def hermitian_tabulate2
  proof (intro allI impI)
    fix i j assume "i < N_pre_diag d" "j < N_pre_diag d"
    then show "entry (spec_H_linear d) j i -
         complex_of_real (Ej (params d)) *
         (entry (cosm nm (spec_fluxonium_phi d)) j i * complex_of_real (cos (2 * pi * phi_ext (params d))) +
          entry (sinm nm (spec_fluxonium_phi d)) j i * complex_of_real (sin (2 * pi * phi_ext (params d)))) =
         cnj (entry (spec_H_linear d) i j -
            complex_of_real (Ej (params d)) *
            (entry (cosm nm (spec_fluxonium_phi d)) i j * complex_of_real (cos (2 * pi * phi_ext (params d))) +
             entry (sinm nm (spec_fluxonium_phi d)) i j * complex_of_real (sin (2 * pi * phi_ext (params d)))))"
      by (simp add: hermitian_entry [OF hc] hermitian_entry [OF hs] hermitian_entry [OF hl] cs ss)
  qed
qed

lemma leading_terms_contract: "numerics_contract leading_terms"
proof -
  have "matrix_function_contract (\<lambda>A. tabulate2 (nrows A) (ncols A) (\<lambda>i j. if i = j then 1 else 0))"
    unfolding matrix_function_contract_def
  proof (intro allI impI conjI)
    fix A :: cmat assume "wf_mat A \<and> nrows A = ncols A"
    then have sq: "ncols A = nrows A" by simp
    show "hermitian (tabulate2 (nrows A) (ncols A) (\<lambda>i j. if i = j then 1 else 0))"
      unfolding sq hermitian_tabulate2 by simp
  qed (simp_all add: same_shape_def)
  moreover have "matrix_function_contract (\<lambda>A. A)"
    by (simp add: matrix_function_contract_def same_shape_def)
  ultimately show ?thesis
    by (simp add: numerics_contract_def leading_terms_def)
qed

section \<open>Claims about the Hamiltonians\<close>

lemma example_fluxonium_positive:
  "0 < Ec (params (example_fluxonium h))" "0 < El (params (example_fluxonium h))"
  by (simp_all add: example_fluxonium_def example_params_def)

text \<open>
  Claim C5, as stated for every Fluxonium, fails on a device with \<open>Ec = 0\<close>:
  \<open>get_H_linear()\<close> reads \<open>linear_ops\<close>, which runs \<open>common_ops()\<close>, and there \<open>n_zpf()\<close>
  divides by \<open>32 Ec\<close> and raises \<open>ZeroDivisionError\<close>, so no Hamiltonian is returned.
\<close>

theorem get_H_linear_every_fluxonium_counterexample:
  "Fluxonium_get_H_linear leading_terms zero_Ec_fluxonium = Inl ZeroDivisionError \<and>
   Fluxonium_get_H_linear leading_terms zero_Ec_fluxonium
     \<noteq> Inr (spec_H_linear zero_Ec_fluxonium)"
  by (simp add: Fluxonium_get_H_linear_def Fluxonium_linear_ops_def Fluxonium_common_ops_def
      Let_def Fluxonium_phi_zpf_def Fluxonium_n_zpf_def float_div_def zero_Ec_fluxonium_def
      madd_def same_shape_def)

text \<open>
  Claim C5, amended. For every Fluxonium with positive \<open>Ec\<close> and \<open>El\<close>, \<open>get_H_linear()\<close>
  returns \<open>omega (a_dag a + 0.5 id)\<close> with \<open>omega = sqrt(8 Ec El)\<close>, and, the matrix cosine
  and sine meeting their contract, \<open>get_H_full()\<close> returns \<open>get_H_linear()\<close> minus \<open>Ej\<close>
  times \<open>cosm(phi) cos(2 pi phi_ext) + sinm(phi) sin(2 pi phi_ext)\<close>, where \<open>cosm\<close> and
  \<open>sinm\<close> are applied to the whole flux operator \<open>phi\<close>, not to \<open>phi / 2\<close>.
\<close>

theorem Fluxonium_hamiltonian_formulas:
  assumes "0 < Ec (params d)" and "0 < El (params d)"
  shows "Fluxonium_get_H_linear nm d = Inr (spec_H_linear d) \<and>
         (numerics_contract nm \<longrightarrow> Fluxonium_get_H_full nm d = Inr (spec_H_full nm d))"
  using Fluxonium_get_H_linear_eq [OF assms] Fluxonium_get_H_full_eq [OF _ assms] by blast

theorem Fluxonium_hamiltonian_formulas_witness:
  "0 < Ec (params (example_fluxonium full)) \<and> 0 < El (params (example_fluxonium full)) \<and>
   numerics_contract leading_terms \<and>
   Fluxonium_get_H_linear leading_terms (example_fluxonium full)
     = Inr (spec_H_linear (example_fluxonium full)) \<and>
   Fluxonium_get_H_full leading_terms (example_fluxonium full)
     = Inr (spec_H_full leading_terms (example_fluxonium full))"
  using Fluxonium_hamiltonian_formulas
      [where d = "example_fluxonium full" and nm = leading_terms, OF example_fluxonium_positive]
    leading_terms_contract example_fluxonium_positive [of full]
  by simp

text \<open>
  Claim C1. For every valid parameter set, every Hamiltonian returned by
  \<open>Fluxonium.get_H_linear\<close>, \<open>Fluxonium.get_H_full\<close> and
  \<open>SingleChargeTransmon.get_H_full\<close> is Hermitian, that is, equal to its conjugate
  transpose; and the three functions do return a Hamiltonian: the fluxonium ones for
  positive \<open>Ec\<close> and \<open>El\<close>, the second of them when the matrix cosine and sine meet their
  contract, the transmon one when \<open>N \<le> 2 * N_max_charge + 1\<close>.
\<close>

theorem hamiltonians_hermitian:
  "(0 < Ec (params d) \<and> 0 < El (params d) \<longrightarrow>
      (\<exists>H. Fluxonium_get_H_linear nm d = Inr H \<and> hermitian H)) \<and>
   (0 < Ec (params d) \<and> 0 < El (params d) \<and> numerics_contract nm \<longrightarrow>
      (\<exists>H. Fluxonium_get_H_full nm d = Inr H \<and> hermitian H)) \<and>
   (N t \<le> 2 * N_max_charge t + 1 \<longrightarrow>
      (\<exists>H. SingleChargeTransmon_get_H_full t = Inr H \<and> hermitian H)) \<and>
   (\<forall>H. SingleChargeTransmon_get_H_full t = Inr H \<longrightarrow> hermitian H)"
proof (intro conjI impI allI)
  assume "0 < Ec (params d) \<and> 0 < El (params d)"
  then show "\<exists>H. Fluxonium_get_H_linear nm d = Inr H \<and> hermitian H"
    using Fluxonium_get_H_linear_eq hermitian_spec_H_linear by blast
next
  assume "0 < Ec (params d) \<and> 0 < El (params d) \<and> numerics_contract nm"
  then show "\<exists>H. Fluxonium_get_H_full nm d = Inr H \<and> hermitian H"
    using Fluxonium_get_H_full_eq hermitian_spec_H_full by blast
next
  assume "N t \<le> 2 * N_max_charge t + 1"
  then show "\<exists>H. SingleChargeTransmon_get_H_full t = Inr H \<and> hermitian H"
    using get_H_full_valid hermitian_spec_transmon_H by blast
next
  fix H assume H: "SingleChargeTransmon_get_H_full t = Inr H"
  show "hermitian H"
  proof (cases "N t \<le> 2 * N_max_charge t + 1")
    case True
    then have "H = spec_transmon_H (params t) (N_max_charge t)"
      using H get_H_full_valid [of t] by simp
    then show ?thesis by (simp add: hermitian_spec_transmon_H)
  next
    case False
    then have "SingleChargeTransmon_get_H_full t = Inl AssertionError"
      by (simp add: get_H_full_invalid)
    with H show ?thesis by simp
  qed
qed

theorem hamiltonians_hermitian_witness:
  "0 < Ec (params (example_fluxonium full)) \<and> 0 < El (params (example_fluxonium full)) \<and>
   (\<exists>H. Fluxonium_get_H_linear leading_terms (example_fluxonium full) = Inr H \<and> hermitian H) \<and>
   numerics_contract leading_terms \<and>
   (\<exists>H. Fluxonium_get_H_full leading_terms (example_fluxonium full) = Inr H \<and> hermitian H) \<and>
   (3::nat) \<le> 2 * 1 + 1 \<and>
   (\<exists>H. SingleChargeTransmon_get_H_full (SingleChargeTransmon_create 3 1 example_params 0 False)
          = Inr H \<and> hermitian H) \<and>
   SingleChargeTransmon_get_H_full (SingleChargeTransmon_create 3 1 example_params 0 False)
     = Inr (Mat 3 3 [[1, 0, - (1 / 2)], [0, 0, 0], [- (1 / 2), 0, 1]]) \<and>
   hermitian (Mat 3 3 [[1, 0, - (1 / 2)], [0, 0, 0], [- (1 / 2), 0, 1]])"
proof -
  let ?t = "SingleChargeTransmon_create 3 1 example_params 0 False"
  have v: "SingleChargeTransmon_get_H_full ?t
             = Inr (Mat 3 3 [[1, 0, - (1 / 2)], [0, 0, 0], [- (1 / 2), 0, 1]])"
    using get_H_full_valid [of ?t] by (simp add: spec_transmon_H_example)
  show ?thesis
    using hamiltonians_hermitian [of "example_fluxonium full" leading_terms ?t]
      leading_terms_contract v example_fluxonium_positive [of full]
    by simp
qed

end
